theory Spec2Isabelle
  imports Complex_Main "HOL-Library.Sublist"
begin

section \<open>Values of the Python program\<close>

text \<open>
  A request body is whatever \<^verbatim>\<open>request.get_json()\<close> hands to a handler: a parsed JSON
  value. An object is an association list in the order of its keys (the parser has
  already resolved duplicate keys, so a lookup takes the first binding); a float is the
  number it denotes, of which the handlers only test whether it is zero.
\<close>

datatype json =
    JNull
  | JBool bool
  | JInt int
  | JFloat real
  | JStr string
  | JList "json list"
  | JObj "(string \<times> json) list"

text \<open>
  The exceptions a handler can leave uncaught. \<open>Exception\<close> is the one
  \<^verbatim>\<open>CreateBook.mutate\<close> raises, with its message.
\<close>

datatype exn = TypeError | KeyError | AttributeError | Exception string

text \<open>Python's \<^verbatim>\<open>bool(data)\<close>: what \<^verbatim>\<open>not data\<close> negates.\<close>

fun truthy :: "json \<Rightarrow> bool" where
  "truthy JNull = False"
| "truthy (JBool b) = b"
| "truthy (JInt i) = (i \<noteq> 0)"
| "truthy (JFloat x) = (x \<noteq> 0)"
| "truthy (JStr s) = (s \<noteq> [])"
| "truthy (JList xs) = (xs \<noteq> [])"
| "truthy (JObj kvs) = (kvs \<noteq> [])"

text \<open>
  \<^verbatim>\<open>key in data\<close> for a string key: key membership in a dict, element membership in a
  list, substring test in a string, and a TypeError on a value that is not iterable.
\<close>

fun contains :: "string \<Rightarrow> json \<Rightarrow> exn + bool" where
  "contains k (JObj kvs) = Inr (k \<in> set (map fst kvs))"
| "contains k (JList xs) = Inr (JStr k \<in> set xs)"
| "contains k (JStr s) = Inr (sublist k s)"
| "contains k JNull = Inl TypeError"
| "contains k (JBool b) = Inl TypeError"
| "contains k (JInt i) = Inl TypeError"
| "contains k (JFloat x) = Inl TypeError"

text \<open>\<^verbatim>\<open>data[key]\<close> for a string key: only a dict can be indexed by a string.\<close>

fun getitem :: "json \<Rightarrow> string \<Rightarrow> exn + json" where
  "getitem (JObj kvs) k = (case map_of kvs k of None \<Rightarrow> Inl KeyError | Some v \<Rightarrow> Inr v)"
| "getitem (JList xs) k = Inl TypeError"
| "getitem (JStr s) k = Inl TypeError"
| "getitem JNull k = Inl TypeError"
| "getitem (JBool b) k = Inl TypeError"
| "getitem (JInt i) k = Inl TypeError"
| "getitem (JFloat x) k = Inl TypeError"

text \<open>\<^verbatim>\<open>data.get(key)\<close>: None for a missing key; only a dict has the method.\<close>

fun get :: "json \<Rightarrow> string \<Rightarrow> exn + json" where
  "get (JObj kvs) k = Inr (case map_of kvs k of None \<Rightarrow> JNull | Some v \<Rightarrow> v)"
| "get (JList xs) k = Inl AttributeError"
| "get (JStr s) k = Inl AttributeError"
| "get JNull k = Inl AttributeError"
| "get (JBool b) k = Inl AttributeError"
| "get (JInt i) k = Inl AttributeError"
| "get (JFloat x) k = Inl AttributeError"

text \<open>Python's \<^verbatim>\<open>str(n)\<close> for a non-negative integer: its decimal digits.\<close>

definition digit :: "nat \<Rightarrow> char" where
  "digit d = char_of (48 + d)"

fun py_str :: "nat \<Rightarrow> string" where
  "py_str n = (if n < 10 then [digit n] else py_str (n div 10) @ [digit (n mod 10)])"

declare py_str.simps [simp del]

section \<open>The store\<close>

text \<open>
  Both modules keep two module-level lists of dicts with fixed keys. An author dict has
  the keys \<^verbatim>\<open>id\<close>, \<^verbatim>\<open>name\<close>, \<^verbatim>\<open>age\<close>; a book dict has \<^verbatim>\<open>id\<close>, \<^verbatim>\<open>title\<close>,
  \<^verbatim>\<open>author_id\<close>. An id is always a string (a literal, or the result of \<^verbatim>\<open>str\<close>); the
  other fields hold whatever value the request carried.
\<close>

record author =
  id :: string
  name :: json
  age :: json

record book =
  id :: string
  title :: json
  author_id :: json

text \<open>\<^verbatim>\<open>{**book, "author": author}\<close>: the book's fields and one more.\<close>

record book_with_author = book +
  author :: "author option"

record store =
  authors :: "author list"
  books :: "book list"

definition authors_init :: "author list" where
  "authors_init =
    [\<lparr>author.id = ''1'', name = JStr ''J.K. Rowling'', age = JInt 59\<rparr>,
     \<lparr>author.id = ''2'', name = JStr ''J.R.R. Tolkien'', age = JInt 81\<rparr>]"

definition books_init :: "book list" where
  "books_init =
    [\<lparr>book.id = ''1'', title = JStr ''Harry Potter and the Philosopher's Stone'',
       author_id = JStr ''1''\<rparr>,
     \<lparr>book.id = ''2'', title = JStr ''Harry Potter and the Chamber of Secrets'',
       author_id = JStr ''1''\<rparr>,
     \<lparr>book.id = ''3'', title = JStr ''Harry Potter and the Prisoner of Azkaban'',
       author_id = JStr ''1''\<rparr>,
     \<lparr>book.id = ''4'', title = JStr ''The Hobbit'', author_id = JStr ''2''\<rparr>,
     \<lparr>book.id = ''5'', title = JStr ''The Lord of the Rings: The Fellowship of the Ring'',
       author_id = JStr ''2''\<rparr>,
     \<lparr>book.id = ''6'', title = JStr ''The Lord of the Rings: The Two Towers'',
       author_id = JStr ''2''\<rparr>,
     \<lparr>book.id = ''7'', title = JStr ''The Lord of the Rings: The Return of the King'',
       author_id = JStr ''2''\<rparr>]"

definition initial_store :: store where
  "initial_store = \<lparr>authors = authors_init, books = books_init\<rparr>"

section \<open>The REST handlers (rest_app.py)\<close>

text \<open>
  The dict a handler passes to \<^verbatim>\<open>jsonify\<close>. An error body is \<^verbatim>\<open>{"error": message}\<close>;
  the model keeps which message it is, and for the message that quotes the request's
  \<^verbatim>\<open>author_id\<close> the value quoted rather than its rendering.
\<close>

datatype error =
    Author_not_found
  | Book_not_found
  | Missing_name
  | Missing_title_or_author_id
  | No_Author_found json

datatype body =
    Error_body error
  | Author_body author
  | Author_list "author list"
  | Book_body book
  | Book_list "book list"
  | Book_with_author_body book_with_author

text \<open>
  A handler returns a body and a status, or leaves an exception uncaught (the framework
  answers 500). The store is threaded through: a handler returns the store it leaves.
\<close>

type_synonym response = "exn + body \<times> nat"

definition get_authors :: "store \<Rightarrow> response \<times> store" where
  "get_authors s = (Inr (Author_list (authors s), 200), s)"

definition get_author :: "store \<Rightarrow> string \<Rightarrow> response \<times> store" where
  "get_author s author_id' =
    (case find (\<lambda>a. author.id a = author_id') (authors s) of
       None \<Rightarrow> (Inr (Error_body Author_not_found, 404), s)
     | Some a \<Rightarrow> (Inr (Author_body a, 200), s))"

definition create_author :: "store \<Rightarrow> json \<Rightarrow> response \<times> store" where
  "create_author s data =
    (if \<not> truthy data then (Inr (Error_body Missing_name, 400), s)
     else case contains ''name'' data of
       Inl e \<Rightarrow> (Inl e, s)
     | Inr has_name \<Rightarrow>
        if \<not> has_name then (Inr (Error_body Missing_name, 400), s)
        else case getitem data ''name'' of
          Inl e \<Rightarrow> (Inl e, s)
        | Inr nm \<Rightarrow>
           (case get data ''age'' of
              Inl e \<Rightarrow> (Inl e, s)
            | Inr ag \<Rightarrow>
               let new_author_id = py_str (length (authors s) + 1);
                   new_author = \<lparr>author.id = new_author_id, name = nm, age = ag\<rparr>
               in (Inr (Author_body new_author, 201),
                   s\<lparr>authors := authors s @ [new_author]\<rparr>)))"

definition get_books :: "store \<Rightarrow> response \<times> store" where
  "get_books s = (Inr (Book_list (books s), 200), s)"

definition get_book :: "store \<Rightarrow> string \<Rightarrow> response \<times> store" where
  "get_book s book_id =
    (case find (\<lambda>b. book.id b = book_id) (books s) of
       None \<Rightarrow> (Inr (Error_body Book_not_found, 404), s)
     | Some b \<Rightarrow>
        let author = find (\<lambda>a. JStr (author.id a) = author_id b) (authors s);
            book_with_author = book.extend b (book_with_author.fields author)
        in (Inr (Book_with_author_body book_with_author, 200), s))"

text \<open>
  In \<^verbatim>\<open>create_book\<close> the generator reads \<^verbatim>\<open>data["author_id"]\<close> once per author, and
  the error message reads it again when no author matched; the presence checks have
  passed by then, so the read either succeeds every time or raises the same exception
  the first time it happens. The model reads it once, before the search.
\<close>

definition create_book :: "store \<Rightarrow> json \<Rightarrow> response \<times> store" where
  "create_book s data =
    (if \<not> truthy data then (Inr (Error_body Missing_title_or_author_id, 400), s)
     else case contains ''title'' data of
       Inl e \<Rightarrow> (Inl e, s)
     | Inr has_title \<Rightarrow>
        if \<not> has_title then (Inr (Error_body Missing_title_or_author_id, 400), s)
        else case contains ''author_id'' data of
          Inl e \<Rightarrow> (Inl e, s)
        | Inr has_author_id \<Rightarrow>
           if \<not> has_author_id then (Inr (Error_body Missing_title_or_author_id, 400), s)
           else case getitem data ''author_id'' of
             Inl e \<Rightarrow> (Inl e, s)
           | Inr aid \<Rightarrow>
              (case find (\<lambda>a. JStr (author.id a) = aid) (authors s) of
                 None \<Rightarrow> (Inr (Error_body (No_Author_found aid), 400), s)
               | Some matching_author \<Rightarrow>
                  (case getitem data ''title'' of
                     Inl e \<Rightarrow> (Inl e, s)
                   | Inr ttl \<Rightarrow>
                      let new_book_id = py_str (length (books s) + 1);
                          new_book = \<lparr>book.id = new_book_id, title = ttl, author_id = aid\<rparr>
                      in (Inr (Book_body new_book, 201),
                          s\<lparr>books := books s @ [new_book]\<rparr>))))"

section \<open>The GraphQL resolvers and mutations (graphql_app.py)\<close>

text \<open>
  The schema types the arguments before a resolver runs: an \<^verbatim>\<open>ID\<close> and a \<^verbatim>\<open>String\<close>
  arrive as strings, an optional \<^verbatim>\<open>Int\<close> as an integer or None. The methods
  themselves check nothing: \<^verbatim>\<open>mutate\<close> stores whatever age it is called with. That only
  ages of the signed 32-bit range reach it is the schema's doing, modelled further down.
\<close>

definition AuthorType_resolve_books :: "store \<Rightarrow> author \<Rightarrow> book list" where
  "AuthorType_resolve_books s self =
    (let author_id' = author.id self
     in filter (\<lambda>book. author_id book = JStr author_id') (books s))"

definition BookType_resolve_author :: "store \<Rightarrow> book \<Rightarrow> author option" where
  "BookType_resolve_author s self =
    (let author_id' = author_id self
     in find (\<lambda>author. JStr (author.id author) = author_id') (authors s))"

definition Query_resolve_author :: "store \<Rightarrow> string \<Rightarrow> author option" where
  "Query_resolve_author s id' = find (\<lambda>author. author.id author = id') (authors s)"

definition Query_resolve_all_books :: "store \<Rightarrow> book list" where
  "Query_resolve_all_books s = books s"

definition CreateAuthor_mutate :: "store \<Rightarrow> string \<Rightarrow> int option \<Rightarrow> (exn + author) \<times> store" where
  "CreateAuthor_mutate s name' age' =
    (let new_author_id = py_str (length (authors s) + 1);
         new_author = \<lparr>author.id = new_author_id, name = JStr name',
                       age = (case age' of None \<Rightarrow> JNull | Some i \<Rightarrow> JInt i)\<rparr>
     in (Inr new_author, s\<lparr>authors := authors s @ [new_author]\<rparr>))"

definition CreateBook_mutate :: "store \<Rightarrow> string \<Rightarrow> string \<Rightarrow> (exn + book) \<times> store" where
  "CreateBook_mutate s title' author_id' =
    (case find (\<lambda>author. author.id author = author_id') (authors s) of
       None \<Rightarrow> (Inl (Exception (''No Author found with id='' @ author_id')), s)
     | Some matching_author \<Rightarrow>
        let new_book_id = py_str (length (books s) + 1);
            new_book = \<lparr>book.id = new_book_id, title = JStr title',
                        author_id = JStr author_id'\<rparr>
        in (Inr new_book, s\<lparr>books := books s @ [new_book]\<rparr>))"

section \<open>The schema in front of the mutations (graphql_app.py)\<close>









section \<open>Sequences of operations\<close>

text \<open>
  One constructor per route of rest_app.py and per root field of the schema of
  graphql_app.py, with its input. The two queries read the store through the resolvers
  above, which return no store: they leave it as it is.
\<close>

datatype op =
    GET_authors
  | GET_author string
  | POST_authors json
  | GET_books
  | GET_book string
  | POST_books json
  | Query_author string
  | Query_allBooks
  | Mutation_createAuthor string "int option"
  | Mutation_createBook string string

fun exec :: "store \<Rightarrow> op \<Rightarrow> store" where
  "exec s GET_authors = snd (get_authors s)"
| "exec s (GET_author i) = snd (get_author s i)"
| "exec s (POST_authors d) = snd (create_author s d)"
| "exec s GET_books = snd (get_books s)"
| "exec s (GET_book i) = snd (get_book s i)"
| "exec s (POST_books d) = snd (create_book s d)"
| "exec s (Query_author i) = s"
| "exec s Query_allBooks = s"
| "exec s (Mutation_createAuthor n a) = snd (CreateAuthor_mutate s n a)"
| "exec s (Mutation_createBook t a) = snd (CreateBook_mutate s t a)"

definition run :: "store \<Rightarrow> op list \<Rightarrow> store" where
  "run s ops = foldl exec s ops"

text \<open>Every book's \<^verbatim>\<open>author_id\<close> is the id of some author of the store.\<close>

definition referential_integrity :: "store \<Rightarrow> bool" where
  "referential_integrity s =
    list_all (\<lambda>b. list_ex (\<lambda>a. JStr (author.id a) = author_id b) (authors s)) (books s)"

section \<open>Auxiliary definitions\<close>

text \<open>
  The dict an author record stands for, with the three keys the dict literals of both
  modules give it.
\<close>

definition author_dict :: "author \<Rightarrow> json" where
  "author_dict a = JObj [(''id'', JStr (author.id a)), (''name'', name a), (''age'', age a)]"

text \<open>Reading a decimal string back, to state that \<open>py_str\<close> loses nothing.\<close>

definition digit_val :: "char \<Rightarrow> nat" where
  "digit_val c = of_char c - 48"

definition dec_val :: "string \<Rightarrow> nat" where
  "dec_val cs = foldl (\<lambda>acc c. 10 * acc + digit_val c) 0 cs"

section \<open>Decimal strings\<close>

lemma digit_val_digit: "d < 10 \<Longrightarrow> digit_val (digit d) = d"
  by (simp add: digit_val_def digit_def)

lemma dec_val_py_str: "dec_val (py_str n) = n"
proof (induction n rule: py_str.induct)
  case (1 n)
  show ?case
  proof (cases "n < 10")
    case True
    then show ?thesis
      by (subst py_str.simps) (simp add: dec_val_def digit_val_digit)
  next
    case False
    have "dec_val (py_str n) = 10 * dec_val (py_str (n div 10)) + digit_val (digit (n mod 10))"
      using False by (subst py_str.simps) (simp add: dec_val_def)
    also have "\<dots> = 10 * (n div 10) + n mod 10"
      using 1 False by (simp add: digit_val_digit)
    finally show ?thesis by simp
  qed
qed

lemma py_str_inject: "py_str m = py_str n \<Longrightarrow> m = n"
  by (metis dec_val_py_str)

lemma py_str_3: "py_str 3 = ''3''"
  by code_simp

lemma py_str_8: "py_str 8 = ''8''"
  by code_simp

lemma py_str_Suc3: "py_str (Suc (Suc (Suc 0))) = ''3''"
  using py_str_3 by (simp add: numeral_3_eq_3)

lemma py_str_Suc8: "py_str (Suc (Suc (Suc (Suc (Suc (Suc (Suc (Suc 0)))))))) = ''8''"
  using py_str_8 by (simp add: eval_nat_numeral)



section \<open>Lookups\<close>

lemma find_SomeD: "find P xs = Some x \<Longrightarrow> x \<in> set xs \<and> P x"
  by (auto simp: find_Some_iff)

lemma find_SomeE: "x \<in> set xs \<Longrightarrow> P x \<Longrightarrow> \<exists>y. find P xs = Some y"
  by (cases "find P xs") (auto simp: find_None_iff)

lemma getitem_Inr: "getitem data k = Inr v \<Longrightarrow> \<exists>kvs. data = JObj kvs \<and> map_of kvs k = Some v"
  by (cases data) (auto split: option.splits)

lemma map_of_key: "map_of kvs k = Some v \<Longrightarrow> k \<in> fst ` set kvs \<and> kvs \<noteq> []"
  by (auto dest: map_of_SomeD intro: rev_image_eqI)

lemma create_author_object:
  assumes "getitem data ''name'' = Inr nm"
  shows "create_author s data =
    (let a = \<lparr>author.id = py_str (length (authors s) + 1), name = nm,
              age = (case get data ''age'' of Inr v \<Rightarrow> v | Inl e \<Rightarrow> JNull)\<rparr>
     in (Inr (Author_body a, 201), s\<lparr>authors := authors s @ [a]\<rparr>))"
proof -
  obtain kvs where d: "data = JObj kvs" and m: "map_of kvs ''name'' = Some nm"
    using assms getitem_Inr by blast
  from map_of_key [OF m] show ?thesis
    using m by (simp add: create_author_def d Let_def)
qed

section \<open>What an operation does to the store\<close>

lemma get_author_store: "snd (get_author s i) = s"
  by (simp add: get_author_def split: option.splits)

lemma get_book_store: "snd (get_book s i) = s"
  by (simp add: get_book_def Let_def split: option.splits)

lemma create_author_store:
  "books (snd (create_author s d)) = books s \<and>
   (authors (snd (create_author s d)) = authors s \<or>
    (\<exists>a. authors (snd (create_author s d)) = authors s @ [a]))"
  by (simp add: create_author_def Let_def split: sum.splits)

lemma create_book_store:
  "authors (snd (create_book s d)) = authors s \<and>
   (books (snd (create_book s d)) = books s \<or>
    (\<exists>b. books (snd (create_book s d)) = books s @ [b] \<and>
         list_ex (\<lambda>a. JStr (author.id a) = author_id b) (authors s)))"
  by (auto simp: create_book_def Let_def list_ex_iff split: sum.splits option.splits
      dest: find_SomeD)

lemma CreateAuthor_mutate_store:
  "books (snd (CreateAuthor_mutate s n g)) = books s \<and>
   (\<exists>a. authors (snd (CreateAuthor_mutate s n g)) = authors s @ [a])"
  by (simp add: CreateAuthor_mutate_def Let_def)

lemma CreateBook_mutate_store:
  "authors (snd (CreateBook_mutate s t i)) = authors s \<and>
   (books (snd (CreateBook_mutate s t i)) = books s \<or>
    (\<exists>b. books (snd (CreateBook_mutate s t i)) = books s @ [b] \<and>
         list_ex (\<lambda>a. JStr (author.id a) = author_id b) (authors s)))"
  by (auto simp: CreateBook_mutate_def Let_def list_ex_iff split: option.splits
      dest: find_SomeD)

lemma exec_store:
  "(authors (exec s c) = authors s \<and> books (exec s c) = books s) \<or>
   (\<exists>a. authors (exec s c) = authors s @ [a] \<and> books (exec s c) = books s) \<or>
   (\<exists>b. authors (exec s c) = authors s \<and> books (exec s c) = books s @ [b] \<and>
        list_ex (\<lambda>a. JStr (author.id a) = author_id b) (authors s))"
proof (cases c)
  case (POST_authors d)
  then show ?thesis using create_author_store [of s d] by auto
next
  case (POST_books d)
  then show ?thesis using create_book_store [of s d] by auto
next
  case (Mutation_createAuthor n g)
  then show ?thesis using CreateAuthor_mutate_store [of s n g] by auto
next
  case (Mutation_createBook t i)
  then show ?thesis using CreateBook_mutate_store [of s t i] by auto
qed (simp_all add: get_authors_def get_books_def get_author_store get_book_store)

lemma exec_referential_integrity:
  assumes "referential_integrity s"
  shows "referential_integrity (exec s c)"
  using exec_store [of s c] assms
  by (auto simp: referential_integrity_def list_all_iff list_ex_iff)

lemma run_referential_integrity:
  "referential_integrity s \<Longrightarrow> referential_integrity (run s cs)"
  unfolding run_def
  by (induction cs arbitrary: s) (simp_all add: exec_referential_integrity)

lemma initial_referential_integrity: "referential_integrity initial_store"
  by (simp add: referential_integrity_def initial_store_def authors_init_def books_init_def)

section \<open>The claims\<close>

text \<open>
  Claim C1. A create-book request whose \<^verbatim>\<open>author_id\<close> is the id of no author of the
  store fails and leaves the store as it was: the REST handler answers 400 with an error
  body (which of its two messages depends on whether the body also carries a title), and
  the GraphQL mutation raises its exception. Here \<open>v\<close> is the value the request
  carries as \<^verbatim>\<open>author_id\<close>.
\<close>

theorem create_book_unknown_author_rejected:
  assumes "\<forall>a\<in>set (authors s). JStr (author.id a) \<noteq> v"
  shows "(getitem data ''author_id'' = Inr v \<longrightarrow>
            create_book s data =
              (Inr (Error_body (if contains ''title'' data = Inr True then No_Author_found v
                                else Missing_title_or_author_id), 400), s)) \<and>
         (v = JStr author_id' \<longrightarrow>
            CreateBook_mutate s title' author_id' =
              (Inl (Exception (''No Author found with id='' @ author_id')), s))"
proof (intro conjI impI)
  assume g: "getitem data ''author_id'' = Inr v"
  then obtain kvs where d: "data = JObj kvs" and m: "map_of kvs ''author_id'' = Some v"
    using getitem_Inr by blast
  have k: "''author_id'' \<in> fst ` set kvs" "kvs \<noteq> []" using map_of_key [OF m] by simp_all
  have f: "find (\<lambda>a. JStr (author.id a) = v) (authors s) = None"
    using assms by (simp add: find_None_iff)
  show "create_book s data =
          (Inr (Error_body (if contains ''title'' data = Inr True then No_Author_found v
                            else Missing_title_or_author_id), 400), s)"
    using k m f by (simp add: create_book_def d)
next
  assume "v = JStr author_id'"
  with assms have "find (\<lambda>a. author.id a = author_id') (authors s) = None"
    by (simp add: find_None_iff)
  then show "CreateBook_mutate s title' author_id' =
      (Inl (Exception (''No Author found with id='' @ author_id')), s)"
    by (simp add: CreateBook_mutate_def)
qed

theorem create_book_unknown_author_rejected_witness:
  "create_book initial_store (JObj [(''title'', JStr ''Mistborn''), (''author_id'', JStr ''3'')]) =
     (Inr (Error_body (No_Author_found (JStr ''3'')), 400), initial_store) \<and>
   CreateBook_mutate initial_store ''Mistborn'' ''3'' =
     (Inl (Exception ''No Author found with id=3''), initial_store)"
  using create_book_unknown_author_rejected [of initial_store "JStr ''3''"
      "JObj [(''title'', JStr ''Mistborn''), (''author_id'', JStr ''3'')]" "''3''" "''Mistborn''"]
  by (simp add: initial_store_def authors_init_def)

text \<open>
  Claim C2. A create-author request that carries a name succeeds in every store: the
  REST handler answers 201 and the GraphQL mutation returns, each with an author record
  whose id is the decimal string of the number of authors before the call plus one and
  whose name is the one sent, and the store afterwards is the old one with that record
  appended to its authors.
\<close>

theorem create_author_assigns_next_id:
  "(getitem data ''name'' = Inr nm \<longrightarrow>
      (\<exists>a. create_author s data = (Inr (Author_body a, 201), s\<lparr>authors := authors s @ [a]\<rparr>) \<and>
           author.id a = py_str (length (authors s) + 1) \<and> name a = nm)) \<and>
   (\<exists>a. CreateAuthor_mutate s name' age' = (Inr a, s\<lparr>authors := authors s @ [a]\<rparr>) \<and>
        author.id a = py_str (length (authors s) + 1) \<and> name a = JStr name')"
proof (intro conjI impI)
  assume "getitem data ''name'' = Inr nm"
  then show "\<exists>a. create_author s data =
        (Inr (Author_body a, 201), s\<lparr>authors := authors s @ [a]\<rparr>) \<and>
      author.id a = py_str (length (authors s) + 1) \<and> name a = nm"
    by (simp add: create_author_object Let_def)
next
  show "\<exists>a. CreateAuthor_mutate s name' age' = (Inr a, s\<lparr>authors := authors s @ [a]\<rparr>) \<and>
      author.id a = py_str (length (authors s) + 1) \<and> name a = JStr name'"
    by (simp add: CreateAuthor_mutate_def Let_def)
qed

theorem create_author_assigns_next_id_witness:
  "(\<exists>a. create_author initial_store (JObj [(''name'', JStr ''Brandon Sanderson'')]) =
          (Inr (Author_body a, 201), initial_store\<lparr>authors := authors initial_store @ [a]\<rparr>) \<and>
        author.id a = ''3'' \<and> name a = JStr ''Brandon Sanderson'') \<and>
   (\<exists>a. CreateAuthor_mutate initial_store ''Brandon Sanderson'' None =
          (Inr a, initial_store\<lparr>authors := authors initial_store @ [a]\<rparr>) \<and>
        author.id a = ''3'' \<and> name a = JStr ''Brandon Sanderson'')"
  using create_author_assigns_next_id [of "JObj [(''name'', JStr ''Brandon Sanderson'')]" "JStr ''Brandon Sanderson''"
      initial_store "''Brandon Sanderson''" None]
  by (simp add: initial_store_def authors_init_def py_str_Suc3)

text \<open>
  Claim C3. For an id that some book of the store has, \<^verbatim>\<open>GET /books/{id}\<close> answers 200
  and leaves the store as it was; the record returned has the id, title and author_id of
  the stored book (the first with that id), and its \<^verbatim>\<open>author\<close> field is the author whose
  id equals the book's author_id (the first such in the list), or None exactly when no
  author of the store has that id.
\<close>

theorem get_book_embeds_author:
  assumes "i \<in> book.id ` set (books s)"
  shows "\<exists>b r. find (\<lambda>b. book.id b = i) (books s) = Some b \<and> b \<in> set (books s) \<and> book.id b = i \<and>
           get_book s i = (Inr (Book_with_author_body r, 200), s) \<and>
           book.id r = book.id b \<and> title r = title b \<and> author_id r = author_id b \<and>
           author r = find (\<lambda>a. JStr (author.id a) = author_id b) (authors s) \<and>
           (case author r of
              None \<Rightarrow> author_id b \<notin> (\<lambda>a. JStr (author.id a)) ` set (authors s)
            | Some a \<Rightarrow> a \<in> set (authors s) \<and> JStr (author.id a) = author_id b)"
proof -
  from assms obtain b where b: "find (\<lambda>b. book.id b = i) (books s) = Some b"
    using find_SomeE [of _ "books s" "\<lambda>b. book.id b = i"] by auto
  let ?r = "book.extend b (book_with_author.fields (find (\<lambda>a. JStr (author.id a) = author_id b) (authors s)))"
  have g: "get_book s i = (Inr (Book_with_author_body ?r, 200), s)"
    using b by (simp add: get_book_def Let_def)
  have f: "book.id ?r = book.id b \<and> title ?r = title b \<and> author_id ?r = author_id b \<and>
     author ?r = find (\<lambda>a. JStr (author.id a) = author_id b) (authors s)"
    by (cases b) (simp add: book.extend_def book_with_author.fields_def)
  have c: "(case author ?r of
              None \<Rightarrow> author_id b \<notin> (\<lambda>a. JStr (author.id a)) ` set (authors s)
            | Some a \<Rightarrow> a \<in> set (authors s) \<and> JStr (author.id a) = author_id b)"
    using f by (auto split: option.splits simp: find_None_iff dest: find_SomeD)
  from b g f c find_SomeD [OF b] show ?thesis by blast
qed

theorem get_book_embeds_author_witness:
  "\<exists>r. get_book initial_store ''4'' = (Inr (Book_with_author_body r, 200), initial_store) \<and>
       title r = JStr ''The Hobbit'' \<and>
       author r = Some \<lparr>author.id = ''2'', name = JStr ''J.R.R. Tolkien'', age = JInt 81\<rparr>"
  using get_book_embeds_author [of "''4''" initial_store]
  by (auto simp: initial_store_def books_init_def authors_init_def)

text \<open>
  Claim C4. When \<^verbatim>\<open>author(id)\<close> resolves to an author, the \<^verbatim>\<open>books\<close> field of that
  author is the list \<^verbatim>\<open>allBooks\<close> filtered to the books whose author_id equals the id:
  those books and no others, in the order of the books list.
\<close>

theorem author_books_filters_all_books:
  assumes "Query_resolve_author s id' = Some a"
  shows "AuthorType_resolve_books s a =
           filter (\<lambda>b. author_id b = JStr id') (Query_resolve_all_books s)"
proof -
  from assms have "author.id a = id'"
    by (auto simp: Query_resolve_author_def dest: find_SomeD)
  then show ?thesis
    by (simp add: AuthorType_resolve_books_def Query_resolve_all_books_def)
qed

theorem author_books_filters_all_books_witness:
  "Query_resolve_author initial_store ''2'' =
     Some \<lparr>author.id = ''2'', name = JStr ''J.R.R. Tolkien'', age = JInt 81\<rparr> \<and>
   map book.id (AuthorType_resolve_books initial_store
     \<lparr>author.id = ''2'', name = JStr ''J.R.R. Tolkien'', age = JInt 81\<rparr>) =
     [''4'', ''5'', ''6'', ''7'']"
  using author_books_filters_all_books [of initial_store "''2''"
      "\<lparr>author.id = ''2'', name = JStr ''J.R.R. Tolkien'', age = JInt 81\<rparr>"]
  by (simp add: Query_resolve_author_def Query_resolve_all_books_def
      initial_store_def books_init_def authors_init_def)

text \<open>
  Claim C5. Referential integrity holds in every store reached from the initial dataset
  by any sequence of operations of the two modules.
\<close>

theorem referential_integrity_reachable: "referential_integrity (run initial_store cs)"
proof -
  have "referential_integrity initial_store"
    by (rule initial_referential_integrity)
  then show ?thesis
    by (rule run_referential_integrity)
qed

theorem referential_integrity_reachable_witness:
  "referential_integrity
     (run initial_store
        [POST_authors (JObj [(''name'', JStr ''Brandon Sanderson''), (''age'', JInt 48)]),
         POST_books (JObj [(''title'', JStr ''Mistborn''), (''author_id'', JStr ''3'')])]) \<and>
   length (books
     (run initial_store
        [POST_authors (JObj [(''name'', JStr ''Brandon Sanderson''), (''age'', JInt 48)]),
         POST_books (JObj [(''title'', JStr ''Mistborn''), (''author_id'', JStr ''3'')])])) = 8"
  using referential_integrity_reachable [of "[POST_authors (JObj [(''name'', JStr ''Brandon Sanderson''), (''age'', JInt 48)]),
         POST_books (JObj [(''title'', JStr ''Mistborn''), (''author_id'', JStr ''3'')])]"]
  by (simp add: run_def create_author_def create_book_def Let_def
      initial_store_def authors_init_def books_init_def py_str_Suc3)




text \<open>
  Claim C7. \<^verbatim>\<open>GET /authors/{id}\<close> answers 404 with the error body when no author of the
  store has the id, and 200 with an author of the store that has the id otherwise; the
  store is the same afterwards in both cases. Since the two answers differ, each occurs
  exactly in its case.
\<close>

theorem get_author_found_or_404:
  "(i \<notin> author.id ` set (authors s) \<longrightarrow>
      get_author s i = (Inr (Error_body Author_not_found, 404), s)) \<and>
   (i \<in> author.id ` set (authors s) \<longrightarrow>
      (\<exists>a. a \<in> set (authors s) \<and> author.id a = i \<and>
           get_author s i = (Inr (Author_body a, 200), s)))"
proof (intro conjI impI)
  assume "i \<notin> author.id ` set (authors s)"
  then have "find (\<lambda>a. author.id a = i) (authors s) = None"
    by (auto simp: find_None_iff)
  then show "get_author s i = (Inr (Error_body Author_not_found, 404), s)"
    by (simp add: get_author_def)
next
  assume "i \<in> author.id ` set (authors s)"
  then obtain a where a: "find (\<lambda>a. author.id a = i) (authors s) = Some a"
    using find_SomeE [of _ "authors s" "\<lambda>a. author.id a = i"] by auto
  with find_SomeD [OF a] show "\<exists>a. a \<in> set (authors s) \<and> author.id a = i \<and>
           get_author s i = (Inr (Author_body a, 200), s)"
    by (simp add: get_author_def)
qed

theorem get_author_found_or_404_witness:
  "get_author initial_store ''9'' = (Inr (Error_body Author_not_found, 404), initial_store) \<and>
   get_author initial_store ''1'' =
     (Inr (Author_body \<lparr>author.id = ''1'', name = JStr ''J.K. Rowling'', age = JInt 59\<rparr>, 200),
      initial_store)"
  using get_author_found_or_404 [of "''9''" initial_store] get_author_found_or_404 [of "''1''" initial_store]
  by (auto simp: initial_store_def authors_init_def)

text \<open>
  Claim C8. An operation of either module leaves both lists as they were, or appends one
  record to the authors and leaves the books, or appends one record to the books and
  leaves the authors. So every record is still there afterwards, at its position and
  with its fields.
\<close>

theorem exec_appends_at_most_one:
  "(authors (exec s c) = authors s \<and> books (exec s c) = books s) \<or>
   (\<exists>a. authors (exec s c) = authors s @ [a] \<and> books (exec s c) = books s) \<or>
   (\<exists>b. authors (exec s c) = authors s \<and> books (exec s c) = books s @ [b])"
  using exec_store [of s c] by auto

theorem exec_appends_at_most_one_witness:
  "authors (exec initial_store (POST_books (JObj [(''title'', JStr ''Mistborn''), (''author_id'', JStr ''2'')]))) =
     authors initial_store \<and>
   (\<exists>b. books (exec initial_store (POST_books (JObj [(''title'', JStr ''Mistborn''), (''author_id'', JStr ''2'')]))) =
     books initial_store @ [b])"
  using exec_appends_at_most_one [of initial_store "POST_books (JObj [(''title'', JStr ''Mistborn''), (''author_id'', JStr ''2'')])"]
  by (simp add: create_book_def Let_def initial_store_def authors_init_def)

text \<open>
  Claim C9. The end-to-end scenario from the initial dataset: creating the author
  answers 201 with id 3, creating the book for author 3 then answers 201 with id 8, and
  reading book 8 then answers 200 with the book and the author with id 3 embedded.
\<close>

theorem end_to_end_scenario:
  "fst (create_author initial_store
          (JObj [(''name'', JStr ''Brandon Sanderson''), (''age'', JInt 48)])) =
     Inr (Author_body \<lparr>author.id = ''3'', name = JStr ''Brandon Sanderson'', age = JInt 48\<rparr>, 201) \<and>
   fst (create_book
          (run initial_store
             [POST_authors (JObj [(''name'', JStr ''Brandon Sanderson''), (''age'', JInt 48)])])
          (JObj [(''title'', JStr ''Mistborn''), (''author_id'', JStr ''3'')])) =
     Inr (Book_body \<lparr>book.id = ''8'', title = JStr ''Mistborn'', author_id = JStr ''3''\<rparr>, 201) \<and>
   fst (get_book
          (run initial_store
             [POST_authors (JObj [(''name'', JStr ''Brandon Sanderson''), (''age'', JInt 48)]),
              POST_books (JObj [(''title'', JStr ''Mistborn''), (''author_id'', JStr ''3'')])])
          ''8'') =
     Inr (Book_with_author_body
            \<lparr>book.id = ''8'', title = JStr ''Mistborn'', author_id = JStr ''3'',
             author = Some \<lparr>author.id = ''3'', name = JStr ''Brandon Sanderson'',
                             age = JInt 48\<rparr>\<rparr>, 200)"
  by (simp add: run_def create_author_def create_book_def get_book_def Let_def
      initial_store_def authors_init_def books_init_def py_str_Suc3 py_str_Suc8
      book.extend_def book_with_author.fields_def)

text \<open>
  Claim C10. A create-author request without an age still succeeds, and the record it
  creates has age None: as a dict it has the key \<^verbatim>\<open>age\<close> with the value null. This
  holds for the REST handler and for the GraphQL mutation.
\<close>

theorem create_author_without_age:
  "(getitem data ''name'' = Inr nm \<and> contains ''age'' data = Inr False \<longrightarrow>
      (\<exists>a. create_author s data = (Inr (Author_body a, 201), s\<lparr>authors := authors s @ [a]\<rparr>) \<and>
           age a = JNull \<and> getitem (author_dict a) ''age'' = Inr JNull)) \<and>
   (\<exists>a. CreateAuthor_mutate s name' None = (Inr a, s\<lparr>authors := authors s @ [a]\<rparr>) \<and>
        age a = JNull \<and> getitem (author_dict a) ''age'' = Inr JNull)"
proof (intro conjI impI)
  assume h: "getitem data ''name'' = Inr nm \<and> contains ''age'' data = Inr False"
  then obtain kvs where d: "data = JObj kvs" using getitem_Inr by blast
  with h have "map_of kvs ''age'' = None" by (simp add: map_of_eq_None_iff)
  then have "get data ''age'' = Inr JNull" by (simp add: d)
  then show "\<exists>a. create_author s data =
         (Inr (Author_body a, 201), s\<lparr>authors := authors s @ [a]\<rparr>) \<and>
         age a = JNull \<and> getitem (author_dict a) ''age'' = Inr JNull"
    using h by (simp add: create_author_object Let_def author_dict_def)
next
  show "\<exists>a. CreateAuthor_mutate s name' None = (Inr a, s\<lparr>authors := authors s @ [a]\<rparr>) \<and>
        age a = JNull \<and> getitem (author_dict a) ''age'' = Inr JNull"
    by (simp add: CreateAuthor_mutate_def Let_def author_dict_def)
qed

theorem create_author_without_age_witness:
  "(\<exists>a. create_author initial_store (JObj [(''name'', JStr ''Brandon Sanderson'')]) =
          (Inr (Author_body a, 201), initial_store\<lparr>authors := authors initial_store @ [a]\<rparr>) \<and>
        age a = JNull \<and> getitem (author_dict a) ''age'' = Inr JNull) \<and>
   (\<exists>a. CreateAuthor_mutate initial_store ''Brandon Sanderson'' None =
          (Inr a, initial_store\<lparr>authors := authors initial_store @ [a]\<rparr>) \<and>
        age a = JNull \<and> getitem (author_dict a) ''age'' = Inr JNull)"
  using create_author_without_age [of "JObj [(''name'', JStr ''Brandon Sanderson'')]" "JStr ''Brandon Sanderson''"
      initial_store "''Brandon Sanderson''"]
  by simp

end
